theory Spec2Isabelle
  imports Complex_Main "HOL-Library.Sublist"
begin

section \<open>Python strings\<close>

text \<open>
  A Python \<open>str\<close> is modelled as a list of characters, each character standing for the code
  point of the same number (0 to 255).  On these code points \<open>str.isspace\<close> holds of
  tab, line feed, vertical tab, form feed, carriage return, the four separators 28 to 31,
  space, next line (133) and no-break space (160), and \<open>str.lower\<close> moves the capital
  letters A to Z and the capital letters 192 to 222 (except the multiplication sign 215)
  up by 32, keeping the length of the text.
\<close>

definition isspace :: "char \<Rightarrow> bool" where
  "isspace c = ((of_char c :: nat) \<in> {9, 10, 11, 12, 13, 28, 29, 30, 31, 32, 133, 160})"

definition is_capital :: "char \<Rightarrow> bool" where
  "is_capital c =
     (let n = (of_char c :: nat)
      in (65 \<le> n \<and> n \<le> 90) \<or> (192 \<le> n \<and> n \<le> 222 \<and> n \<noteq> 215))"

definition lower_char :: "char \<Rightarrow> char" where
  "lower_char c = (if is_capital c then char_of ((of_char c :: nat) + 32) else c)"

definition str_lower :: "string \<Rightarrow> string" where
  "str_lower s = map lower_char s"

text \<open>\<open>s.strip()\<close>: leading and trailing whitespace removed.\<close>

definition str_strip :: "string \<Rightarrow> string" where
  "str_strip s = rev (dropWhile isspace (rev (dropWhile isspace s)))"

text \<open>
  \<open>s.split()\<close>: the maximal runs of non-whitespace characters, in order.  The second
  argument is the token collected so far.
\<close>

fun split_from :: "string \<Rightarrow> string \<Rightarrow> string list" where
  "split_from [] w = (if w = [] then [] else [w])"
| "split_from (c # cs) w =
     (if isspace c then (if w = [] then split_from cs [] else w # split_from cs [])
      else split_from cs (w @ [c]))"

definition str_split :: "string \<Rightarrow> string list" where
  "str_split s = split_from s []"

text \<open>\<open>sep.join(ws)\<close>.\<close>

fun str_join :: "string \<Rightarrow> string list \<Rightarrow> string" where
  "str_join sep [] = []"
| "str_join sep [w] = w"
| "str_join sep (w # v # ws) = w @ sep @ str_join sep (v # ws)"

text \<open>\<open>k in s\<close> and \<open>s.find(k)\<close>: the lowest index at which \<open>k\<close> starts in \<open>s\<close>, or -1.\<close>

fun str_in :: "string \<Rightarrow> string \<Rightarrow> bool" where
  "str_in k [] = (k = [])"
| "str_in k (c # cs) = (prefix k (c # cs) \<or> str_in k cs)"

fun str_find :: "string \<Rightarrow> string \<Rightarrow> int" where
  "str_find [] k = (if k = [] then 0 else -1)"
| "str_find (c # cs) k =
     (if prefix k (c # cs) then 0
      else (let r = str_find cs k in if r < 0 then -1 else r + 1))"

text \<open>
  Slices \<open>s[:i]\<close>, \<open>s[i:]\<close> and \<open>s[i:j]\<close>: a negative index counts from the end, and
  every index is clipped to the length.
\<close>

definition slice_index :: "'a list \<Rightarrow> int \<Rightarrow> nat" where
  "slice_index s i = (if i < 0 then nat (max 0 (int (length s) + i)) else min (nat i) (length s))"

definition slice_to :: "'a list \<Rightarrow> int \<Rightarrow> 'a list" where
  "slice_to s i = take (slice_index s i) s"

definition slice_from :: "'a list \<Rightarrow> int \<Rightarrow> 'a list" where
  "slice_from s i = drop (slice_index s i) s"

definition slice :: "'a list \<Rightarrow> int \<Rightarrow> int \<Rightarrow> 'a list" where
  "slice s i j = take (slice_index s j - slice_index s i) (drop (slice_index s i) s)"

section \<open>The category tables\<close>

text \<open>
  One entry of the dictionary \<open>BIAS_CATEGORIES\<close>: the keys \<open>description\<close>,
  \<open>keywords\<close>, \<open>contexts\<close> (absent from six of the eight entries) and \<open>weight\<close>.
  The dictionary itself is the list of its items in insertion order, the order in which
  \<open>items()\<close> yields them.
\<close>

record config =
  cfg_description :: string
  cfg_keywords :: "string list"
  cfg_contexts :: "string list option"
  cfg_weight :: real

definition BIAS_CATEGORIES :: "(string \<times> config) list" where
  "BIAS_CATEGORIES =
   [(''gender_bias'',
     \<lparr>cfg_description = ''Gender-based discrimination or stereotyping'',
      cfg_keywords = [''women'', ''men'', ''female'', ''male'', ''girl'', ''boy'', ''lady'',
                  ''gentleman''],
      cfg_contexts = Some [''not good'', ''shouldn't'', ''can't'', ''cannot'', ''too'', ''only'',
                       ''prefer'', ''not suitable''],
      cfg_weight = 1\<rparr>),
    (''age_bias'',
     \<lparr>cfg_description = ''Age-based discrimination'',
      cfg_keywords = [''young'', ''old'', ''age'', ''senior'', ''junior'', ''fresh'',
                  ''experienced'', ''millennial'', ''boomer''],
      cfg_contexts = Some [''too'', ''not suitable'', ''shouldn't'', ''can't'', ''cannot'',
                       ''not good'', ''only'', ''prefer''],
      cfg_weight = 1\<rparr>),
    (''pejorative'',
     \<lparr>cfg_description = ''Derogatory or insulting language'',
      cfg_keywords = [''stupid'', ''idiot'', ''moron'', ''dumb'', ''pathetic'', ''worthless'',
                  ''useless'', ''incompetent'', ''failure'', ''loser''],
      cfg_contexts = None,
      cfg_weight = 1\<rparr>),
    (''subjective'',
     \<lparr>cfg_description = ''Opinion-based rather than fact-based language'',
      cfg_keywords = [''obviously'', ''clearly'', ''undoubtedly'', ''definitely'', ''absolutely'',
                  ''never'', ''always'', ''everyone'', ''nobody''],
      cfg_contexts = None,
      cfg_weight = 6 / 10\<rparr>),
    (''exaggeration'',
     \<lparr>cfg_description = ''Overstated or hyperbolic language'',
      cfg_keywords = [''amazing'', ''incredible'', ''terrible'', ''awful'', ''horrible'',
                  ''fantastic'', ''perfect'', ''worst'', ''best'', ''brilliant''],
      cfg_contexts = None,
      cfg_weight = 4 / 10\<rparr>),
    (''stereotyping'',
     \<lparr>cfg_description = ''Generalizations based on group characteristics'',
      cfg_keywords = [''typical'', ''usually'', ''generally'', ''most'', ''all'', ''every'',
                  ''never'', ''always'', ''tend to'', ''likely''],
      cfg_contexts = None,
      cfg_weight = 8 / 10\<rparr>),
    (''emotional_manipulation'',
     \<lparr>cfg_description = ''Language designed to evoke strong emotional responses'',
      cfg_keywords = [''shocking'', ''outrageous'', ''disgusting'', ''appalling'', ''terrifying'',
                  ''devastating'', ''heartbreaking''],
      cfg_contexts = None,
      cfg_weight = 7 / 10\<rparr>),
    (''confirmation_bias'',
     \<lparr>cfg_description = ''Language that confirms existing beliefs without evidence'',
      cfg_keywords = [''as expected'', ''not surprising'', ''predictably'', ''obviously'',
                  ''clearly'', ''undoubtedly''],
      cfg_contexts = None,
      cfg_weight = 5 / 10\<rparr>)]"

section \<open>The lexicon filter\<close>

record detection =
  category :: string
  keyword :: string
  position :: int
  context' :: string
  weight :: real
  confidence :: real
  description :: string

text \<open>
  The inner loop over \<open>enumerate(words)\<close>: the index of the first token whose lower-cased
  text contains the keyword, counted from \<open>i\<close>; -1 when the loop ends without a break.
\<close>

fun word_index_from :: "string \<Rightarrow> string list \<Rightarrow> int \<Rightarrow> int" where
  "word_index_from kw [] i = -1"
| "word_index_from kw (word # ws) i =
     (if str_in kw (str_lower word) then i else word_index_from kw ws (i + 1))"

text \<open>
  The confidence of a hit: 0.9, replaced for the two categories with a context list by 1.0
  when one of the context phrases occurs in the lower-cased text and by 0.7 otherwise.
\<close>

definition hit_confidence :: "string \<Rightarrow> config \<Rightarrow> string \<Rightarrow> real" where
  "hit_confidence cat cfg text_lower =
     (if cat \<in> set [''gender_bias'', ''age_bias''] \<and> cfg_contexts cfg \<noteq> None
      then (if list_ex (\<lambda>ctx. str_in ctx text_lower) (the (cfg_contexts cfg)) then 1
            else if cat \<in> set [''gender_bias'', ''age_bias''] then 7 / 10
            else 9 / 10)
      else 9 / 10)"

text \<open>The body of the loop over the keywords of one category: no or one detection.\<close>

definition scan_keyword :: "string \<Rightarrow> string \<Rightarrow> config \<Rightarrow> string \<Rightarrow> detection list" where
  "scan_keyword text cat cfg kw =
     (let text_lower = str_lower text;
          words = str_split text
      in if str_in kw text_lower
         then (let keyword_pos = str_find text_lower kw;
                   word_index = word_index_from kw words 0
               in if word_index \<ge> 0
                  then (let start = max 0 (word_index - 2);
                            stop = min (int (length words)) (word_index + 3)
                        in [\<lparr>category = cat,
                             keyword = kw,
                             position = keyword_pos,
                             context' = str_join '' '' (slice words start stop),
                             weight = cfg_weight cfg,
                             confidence = hit_confidence cat cfg text_lower,
                             description = cfg_description cfg\<rparr>])
                  else [])
         else [])"

definition fast_lexicon_filter :: "string \<Rightarrow> detection list" where
  "fast_lexicon_filter text =
     concat (map (\<lambda>(cat, cfg). concat (map (scan_keyword text cat cfg) (cfg_keywords cfg)))
                 BIAS_CATEGORIES)"

section \<open>Rendering floats\<close>

text \<open>
  Python floats are modelled as reals.  The marker text renders a confidence twice, with
  \<open>str\<close> and with the format \<open>.2f\<close>.  \<open>format_2f\<close> rounds to two decimals, a tie
  going to the even neighbour.  \<open>str_float\<close> prints the decimal expansion with at least one
  digit after the point; it is what Python prints for a float written as a decimal of at
  most 15 significant digits and of magnitude between 0.0001 and 10^16 (the confidences
  0.7, 0.9 and 1.0 of the lexicon filter are such), the expansion of any other real being
  cut after 17 places.
\<close>

definition digit_char :: "nat \<Rightarrow> char" where
  "digit_char d = char_of (48 + d)"

fun str_nat :: "nat \<Rightarrow> string" where
  "str_nat n = (if n < 10 then [digit_char n] else str_nat (n div 10) @ [digit_char (n mod 10)])"

declare str_nat.simps [simp del]

definition round_half_even :: "real \<Rightarrow> int" where
  "round_half_even x =
     (let f = \<lfloor>x\<rfloor>; r = x - of_int f
      in if r < 1 / 2 then f else if 1 / 2 < r then f + 1 else if even f then f else f + 1)"

definition format_2f :: "real \<Rightarrow> string" where
  "format_2f x =
     (let n = nat (round_half_even (\<bar>x\<bar> * 100))
      in (if x < 0 then ''-'' else []) @ str_nat (n div 100) @ ''.'' @
         [digit_char (n mod 100 div 10), digit_char (n mod 10)])"

fun frac_digits :: "nat \<Rightarrow> real \<Rightarrow> string" where
  "frac_digits 0 r = []"
| "frac_digits (Suc n) r =
     (if r = 0 then []
      else (let d = \<lfloor>r * 10\<rfloor> in digit_char (nat d) # frac_digits n (r * 10 - of_int d)))"

definition str_float :: "real \<Rightarrow> string" where
  "str_float x =
     (let a = \<bar>x\<bar>; fd = frac_digits 17 (a - of_int \<lfloor>a\<rfloor>)
      in (if x < 0 then ''-'' else []) @ str_nat (nat \<lfloor>a\<rfloor>) @ ''.'' @
         (if fd = [] then ''0'' else fd))"

section \<open>Highlighting\<close>

record bias_position =
  bp_start :: int
  bp_end :: int
  bp_keyword :: string
  bp_category :: string
  bp_confidence :: real

definition to_bias_position :: "detection \<Rightarrow> bias_position" where
  "to_bias_position d =
     \<lparr>bp_start = position d,
      bp_end = position d + int (length (keyword d)),
      bp_keyword = keyword d,
      bp_category = category d,
      bp_confidence = confidence d\<rparr>"

text \<open>The marker of one hit: the f-string of the source, written out.\<close>

definition highlight :: "bias_position \<Rightarrow> string" where
  \<open>highlight b =
     ''<span style="background-color: rgba(255, 0, 0, '' @ str_float (bp_confidence b) @
     ''); color: white; padding: 2px 4px; border-radius: 3px; font-weight: bold;" title="'' @
     bp_category b @ '' (confidence: '' @ format_2f (bp_confidence b) @ '')">'' @
     bp_keyword b @ ''</span>''\<close>

text \<open>One turn of the rewriting loop.\<close>

definition apply_highlight :: "string \<Rightarrow> bias_position \<Rightarrow> string" where
  "apply_highlight highlighted_text b =
     slice_to highlighted_text (bp_start b) @ highlight b @ slice_from highlighted_text (bp_end b)"

text \<open>
  \<open>sort(key = start, reverse = True)\<close> is stable: positions with the same start keep their
  order, as the stable \<open>sort_key\<close> on the negated start does.
\<close>

definition highlight_biased_words :: "string \<Rightarrow> detection list \<Rightarrow> string" where
  "highlight_biased_words text bias_detections =
     (if bias_detections = [] then text
      else foldl apply_highlight text
             (sort_key (\<lambda>b. - bp_start b) (map to_bias_position bias_detections)))"

section \<open>The fused score\<close>

definition calculate_overall_bias_score :: "detection list \<Rightarrow> bool \<Rightarrow> real \<Rightarrow> real" where
  "calculate_overall_bias_score bias_detections ml_biased ml_confidence =
     (if bias_detections = [] \<and> \<not> ml_biased then 0
      else (let lexicon_score =
                  (if bias_detections \<noteq> []
                   then min (sum_list (map (\<lambda>d. weight d * confidence d) bias_detections)
                             / real (length bias_detections)) 1
                   else 0);
                ml_score = (if ml_biased then ml_confidence else 0);
                overall_score = lexicon_score * (7 / 10) + ml_score * (3 / 10)
            in min overall_score 1))"

section \<open>The sentence classifier\<close>

text \<open>
  Exceptions are values.  \<open>HTTPException\<close> carries its status code; every other exception
  of class \<open>Exception\<close> carries the name under which it is reported.
\<close>

datatype error = HTTPException nat | Exception string

text \<open>
  The scikit-learn pipeline is outside the repository; its four operations are parameters,
  any of which may raise.  \<open>'p\<close> is the content of a pipeline object.  \<open>fit\<close> works in
  place: it yields the content the object is left with, and the exception if it raised.
\<close>

record 'p sklearn =
  make_pipeline :: "error + 'p"
  fit :: "'p \<Rightarrow> string list \<Rightarrow> nat list \<Rightarrow> 'p \<times> error option"
  predict :: "'p \<Rightarrow> string list \<Rightarrow> error + int list"
  predict_proba :: "'p \<Rightarrow> string list \<Rightarrow> error + real list list"

definition biased_examples :: "string list" where
  "biased_examples =
    [''That's obviously a terrible idea'',
     ''Everyone knows this is stupid'',
     ''This is absolutely ridiculous'',
     ''Typical behavior from these people'',
     ''This is clearly wrong and stupid'',
     ''Most people would agree this is awful'',
     ''This is undoubtedly the worst approach'',
     ''All of them are incompetent'',
     ''This is predictably bad'',
     ''Obviously this won't work'',
     ''This is clearly a failure'',
     ''Everyone can see this is wrong'',
     ''This is typically what happens'',
     ''Most of them are useless'',
     ''This is obviously a mistake'']"

definition neutral_examples :: "string list" where
  "neutral_examples =
    [''The data shows a correlation'',
     ''Based on the analysis'',
     ''The results indicate'',
     ''According to the research'',
     ''The study found that'',
     ''The evidence suggests'',
     ''The findings show'',
     ''The report indicates'',
     ''The data reveals'',
     ''The analysis shows'',
     ''The research demonstrates'',
     ''The results suggest'',
     ''The study indicates'',
     ''The findings reveal'',
     ''The evidence shows'']"

definition train_bias_classifier :: "'p sklearn \<Rightarrow> 'p \<Rightarrow> 'p \<times> error option" where
  "train_bias_classifier lib p =
     fit lib p (biased_examples @ neutral_examples)
       (replicate (length biased_examples) 1 @ replicate (length neutral_examples) 0)"

text \<open>
  The module-level variable \<open>bias_pipeline\<close> is passed in (\<open>global\<close>) and handed back.  It
  is assigned before the training runs, so a training that raises leaves the untrained
  pipeline in it.
\<close>

definition load_bias_pipeline :: "'p sklearn \<Rightarrow> 'p option \<Rightarrow> (error + 'p) \<times> 'p option" where
  "load_bias_pipeline lib global =
     (case global of
        None \<Rightarrow>
          (case make_pipeline lib of
             Inl e \<Rightarrow> (Inl (HTTPException 500), None)
           | Inr p \<Rightarrow>
               (case train_bias_classifier lib p of
                  (p', Some e) \<Rightarrow> (Inl (HTTPException 500), Some p')
                | (p', None) \<Rightarrow> (Inr p', Some p')))
      | Some p \<Rightarrow> (Inr p, Some p))"

text \<open>\<open>xs[0]\<close> and \<open>max(xs)\<close>, which raise on an empty sequence.\<close>

definition first :: "'a list \<Rightarrow> error + 'a" where
  "first xs = (case xs of [] \<Rightarrow> Inl (Exception ''IndexError'') | x # _ \<Rightarrow> Inr x)"

definition max_of :: "real list \<Rightarrow> error + real" where
  "max_of xs = (case xs of [] \<Rightarrow> Inl (Exception ''ValueError'') | x # ys \<Rightarrow> Inr (fold max ys x))"

text \<open>The statements of the try block after the pipeline is loaded.\<close>

definition classify :: "'p sklearn \<Rightarrow> 'p \<Rightarrow> string \<Rightarrow> error + bool \<times> real" where
  "classify lib pipeline text =
     (case predict lib pipeline [text] of
        Inl e \<Rightarrow> Inl e
      | Inr prediction \<Rightarrow>
          (case predict_proba lib pipeline [text] of
             Inl e \<Rightarrow> Inl e
           | Inr probability \<Rightarrow>
               (case first prediction of
                  Inl e \<Rightarrow> Inl e
                | Inr label \<Rightarrow>
                    (case first probability of
                       Inl e \<Rightarrow> Inl e
                     | Inr row \<Rightarrow>
                         (case max_of row of
                            Inl e \<Rightarrow> Inl e
                          | Inr c \<Rightarrow> Inr (label \<noteq> 0, c))))))"

definition sentence_level_classification ::
    "'p sklearn \<Rightarrow> 'p option \<Rightarrow> string \<Rightarrow> (bool \<times> real) \<times> 'p option" where
  "sentence_level_classification lib global text =
     (case load_bias_pipeline lib global of
        (Inl e, global') \<Rightarrow> ((False, 0), global')
      | (Inr pipeline, global') \<Rightarrow>
          (case classify lib pipeline text of
             Inl e \<Rightarrow> ((False, 0), global')
           | Inr r \<Rightarrow> (r, global')))"

section \<open>The real-time detection endpoint\<close>

record payload =
  payload_text :: string
  session_id :: "string option"

record category_entry =
  entry_category :: string
  entry_description :: string
  entry_confidence :: real
  entry_keyword :: "string option"
  entry_context :: string
  entry_weight :: real

record bias_result =
  is_biased :: bool
  overall_confidence :: real
  categories :: "category_entry list"
  highlighted_text :: string
  bias_score :: real
  processing_time_ms :: real

text \<open>
  The state of the process: the module-level pipeline, and a log of the calls to the two
  detectors, kept to tell which of them a request has invoked.
\<close>

datatype call = FastLexiconFilter string | SentenceLevelClassification string

record 'p process =
  bias_pipeline :: "'p option"
  call_log :: "call list"

text \<open>
  What a request meets outside the code: the library, the two readings of the clock (on
  entry, and when the response is built), and an exception of class \<open>Exception\<close> that the
  runtime may raise inside the try block, while step 1 runs or while steps 3 to 6 run.
  The statements of the block raise none by themselves; the two fields are \<open>None\<close> in a
  run without such an exception.
\<close>

record 'p env =
  lib :: "'p sklearn"
  time_start :: real
  time_end :: real
  raised_in_filter :: "error option"
  raised_in_fusion :: "error option"

definition max_default :: "real list \<Rightarrow> real \<Rightarrow> real" where
  "max_default xs d = (case xs of [] \<Rightarrow> d | x # ys \<Rightarrow> fold max ys x)"

definition to_category_entry :: "detection \<Rightarrow> category_entry" where
  "to_category_entry d =
     \<lparr>entry_category = category d,
      entry_description = description d,
      entry_confidence = confidence d,
      entry_keyword = Some (keyword d),
      entry_context = context' d,
      entry_weight = weight d\<rparr>"

definition general_bias_entry :: "real \<Rightarrow> string \<Rightarrow> category_entry" where
  "general_bias_entry ml_confidence text =
     \<lparr>entry_category = ''general_bias'',
      entry_description = ''General biased language detected by ML classifier'',
      entry_confidence = ml_confidence,
      entry_keyword = None,
      entry_context = text,
      entry_weight = 5 / 10\<rparr>"

text \<open>Steps 3 to 6 and the response of the normal path.\<close>

definition fuse :: "'p env \<Rightarrow> string \<Rightarrow> detection list \<Rightarrow> bool \<Rightarrow> real \<Rightarrow> bias_result" where
  "fuse env text lexicon_bias ml_biased ml_confidence =
     \<lparr>is_biased = (length lexicon_bias > 0 \<or> ml_biased),
      overall_confidence = max (max_default (map confidence lexicon_bias) 0) ml_confidence,
      categories = map to_category_entry lexicon_bias @
                   (if ml_biased \<and> lexicon_bias = []
                    then [general_bias_entry ml_confidence text] else []),
      highlighted_text = highlight_biased_words text lexicon_bias,
      bias_score = calculate_overall_bias_score lexicon_bias ml_biased ml_confidence,
      processing_time_ms = (time_end env - time_start env) * 1000\<rparr>"

text \<open>The try block: its outcome, a response or an exception, and the state it leaves.\<close>

definition detect_try ::
    "'p env \<Rightarrow> 'p process \<Rightarrow> payload \<Rightarrow> (error + bias_result) \<times> 'p process" where
  "detect_try env st p =
     (let text = str_strip (payload_text p)
      in if text = []
         then (Inr \<lparr>is_biased = False, overall_confidence = 0, categories = [],
                    highlighted_text = [], bias_score = 0, processing_time_ms = 0\<rparr>, st)
         else (let st1 = st\<lparr>call_log := call_log st @ [FastLexiconFilter text]\<rparr>
               in case raised_in_filter env of
                    Some e \<Rightarrow> (Inl e, st1)
                  | None \<Rightarrow>
                      (let lexicon_bias = fast_lexicon_filter text;
                           ((ml_biased, ml_confidence), pipeline') =
                              sentence_level_classification (lib env) (bias_pipeline st1) text;
                           st2 = st1\<lparr>bias_pipeline := pipeline',
                                     call_log := call_log st1 @ [SentenceLevelClassification text]\<rparr>
                       in case raised_in_fusion env of
                            Some e \<Rightarrow> (Inl e, st2)
                          | None \<Rightarrow>
                              (Inr (fuse env text lexicon_bias ml_biased ml_confidence), st2))))"

text \<open>The handler: every exception of the block becomes the neutral response.\<close>

definition detect_realtime_bias ::
    "'p env \<Rightarrow> 'p process \<Rightarrow> payload \<Rightarrow> (error + bias_result) \<times> 'p process" where
  "detect_realtime_bias env st p =
     (case detect_try env st p of
        (Inr r, st') \<Rightarrow> (Inr r, st')
      | (Inl e, st') \<Rightarrow>
          (Inr \<lparr>is_biased = False, overall_confidence = 0, categories = [],
                highlighted_text = payload_text p, bias_score = 0,
                processing_time_ms = (time_end env - time_start env) * 1000\<rparr>, st'))"

section \<open>The sentiment endpoint\<close>

text \<open>
  The polarity analyzer is outside the repository: building it and scoring a text are
  parameters, and both may raise.  The scores are a dictionary from names to floats.
\<close>

record 'a nltk =
  make_analyzer :: "error + 'a"
  polarity_scores :: "'a \<Rightarrow> string \<Rightarrow> error + (string \<rightharpoonup> real)"

definition load_vader_analyzer :: "'a nltk \<Rightarrow> 'a option \<Rightarrow> (error + 'a) \<times> 'a option" where
  "load_vader_analyzer nl global =
     (case global of
        None \<Rightarrow>
          (case make_analyzer nl of
             Inl e \<Rightarrow> (Inl (HTTPException 500), None)
           | Inr a \<Rightarrow> (Inr a, Some a))
      | Some a \<Rightarrow> (Inr a, Some a))"

text \<open>\<open>d[k]\<close>, which raises when the key is missing.\<close>

definition lookup :: "(string \<rightharpoonup> real) \<Rightarrow> string \<Rightarrow> error + real" where
  "lookup d k = (case d k of None \<Rightarrow> Inl (Exception ''KeyError'') | Some v \<Rightarrow> Inr v)"

datatype sentiment_label = POSITIVE | NEGATIVE | NEUTRAL

record sentiment_entry =
  label :: sentiment_label
  score :: real
  vader_scores :: "(string \<rightharpoonup> real) option"
  error_text :: "error option"

definition sentiment_of_compound :: "real \<Rightarrow> sentiment_label \<times> real" where
  "sentiment_of_compound compound_score =
     (if compound_score \<ge> 5 / 100 then (POSITIVE, compound_score)
      else if compound_score \<le> - (5 / 100) then (NEGATIVE, \<bar>compound_score\<bar>)
      else (NEUTRAL, 5 / 10))"

definition sentiment_try ::
    "'a nltk \<Rightarrow> 'a option \<Rightarrow> string \<Rightarrow> (error + sentiment_entry list) \<times> 'a option" where
  "sentiment_try nl global text =
     (case load_vader_analyzer nl global of
        (Inl e, global') \<Rightarrow> (Inl e, global')
      | (Inr analyzer, global') \<Rightarrow>
          (case polarity_scores nl analyzer text of
             Inl e \<Rightarrow> (Inl e, global')
           | Inr scores \<Rightarrow>
               (case lookup scores ''compound'' of
                  Inl e \<Rightarrow> (Inl e, global')
                | Inr compound_score \<Rightarrow>
                    (let (l, s) = sentiment_of_compound compound_score
                     in (Inr [\<lparr>label = l, score = s, vader_scores = Some scores,
                               error_text = None\<rparr>], global')))))"

definition analyze_sentiment ::
    "'a nltk \<Rightarrow> 'a option \<Rightarrow> string \<Rightarrow> sentiment_entry list \<times> 'a option" where
  "analyze_sentiment nl global text =
     (case sentiment_try nl global text of
        (Inr result, global') \<Rightarrow> (result, global')
      | (Inl e, global') \<Rightarrow>
          ([\<lparr>label = NEUTRAL, score = 5 / 10, vader_scores = None, error_text = Some e\<rparr>],
           global'))"

section \<open>Notions of the specification\<close>

text \<open>
  The two components of the fused score as the specification words them: the mean of
  weight times confidence over the detections, capped at 1 (0 without detections), and the
  classifier's confidence when it flags the text (0 otherwise).
\<close>

definition spec_lexicon_component :: "detection list \<Rightarrow> real" where
  "spec_lexicon_component ds =
     (if ds = [] then 0
      else min 1 ((\<Sum>d\<leftarrow>ds. weight d * confidence d) / real (length ds)))"

definition spec_ml_component :: "bool \<Rightarrow> real \<Rightarrow> real" where
  "spec_ml_component ml_biased ml_confidence = (if ml_biased then ml_confidence else 0)"

text \<open>The context list of a category in the table; empty for a category without one.\<close>

definition contexts_of :: "string \<Rightarrow> string list" where
  "contexts_of cat =
     (case map_of BIAS_CATEGORIES cat of
        None \<Rightarrow> []
      | Some cfg \<Rightarrow> (case cfg_contexts cfg of None \<Rightarrow> [] | Some cs \<Rightarrow> cs))"

text \<open>The (category, keyword) pairs of the table, in the order of the scan.\<close>

definition keyword_pairs :: "(string \<times> string) list" where
  "keyword_pairs = concat (map (\<lambda>(cat, cfg). map (Pair cat) (cfg_keywords cfg)) BIAS_CATEGORIES)"

text \<open>
  Removing the markers from a highlighted text: every opening tag of the marker, from its
  fixed beginning through the next \<open>>\<close>, and every closing tag is deleted; every other
  character stays.
\<close>

definition marker_open :: string where
  \<open>marker_open = ''<span style="background-color: rgba(255, 0, 0, ''\<close>

definition marker_close :: string where
  "marker_close = ''</span>''"

function strip_markers :: "string \<Rightarrow> string" where
  "strip_markers [] = []"
| "strip_markers (c # cs) =
     (if prefix marker_close (c # cs) then strip_markers (drop (length marker_close) (c # cs))
      else if prefix marker_open (c # cs)
      then strip_markers (tl (dropWhile (\<lambda>x. x \<noteq> CHR ''>'') (c # cs)))
      else c # strip_markers cs)"
  by pat_completeness auto
termination
proof (relation "measure length")
  fix c :: char and cs :: string
  show "(drop (length marker_close) (c # cs), c # cs) \<in> measure length"
    by (simp add: marker_close_def)
  have "length (dropWhile (\<lambda>x. x \<noteq> CHR ''>'') (c # cs)) \<le> length (c # cs)"
    by (rule length_dropWhile_le)
  then show "(tl (dropWhile (\<lambda>x. x \<noteq> CHR ''>'') (c # cs)), c # cs) \<in> measure length"
    by (cases "dropWhile (\<lambda>x. x \<noteq> CHR ''>'') (c # cs)") auto
qed simp_all

declare strip_markers.simps [simp del]

text \<open>The classifier fails on a text: loading the pipeline raises, or predicting does.\<close>

definition classifier_fails :: "'p sklearn \<Rightarrow> 'p option \<Rightarrow> string \<Rightarrow> bool" where
  "classifier_fails lb global text =
     (case load_bias_pipeline lb global of
        (Inl e, _) \<Rightarrow> True
      | (Inr pipeline, _) \<Rightarrow> (case classify lb pipeline text of Inl e \<Rightarrow> True | Inr _ \<Rightarrow> False))"

text \<open>A response without its processing time.\<close>

definition timeless :: "bias_result \<Rightarrow> bias_result" where
  "timeless r = r\<lparr>processing_time_ms := 0\<rparr>"

section \<open>Sample environments\<close>

text \<open>
  Three libraries for running the endpoint on concrete requests: one whose classifier
  answers every text with the label 0 and the probabilities 0.5 and 0.5, one whose
  classifier flags every text with probability 0.9, and one that cannot be built.
\<close>

definition lib_even :: "unit sklearn" where
  "lib_even =
     \<lparr>make_pipeline = Inr (),
      fit = (\<lambda>p X y. (p, None)),
      predict = (\<lambda>p X. Inr [0]),
      predict_proba = (\<lambda>p X. Inr [[5 / 10, 5 / 10]])\<rparr>"

definition lib_flagging :: "unit sklearn" where
  "lib_flagging =
     \<lparr>make_pipeline = Inr (),
      fit = (\<lambda>p X y. (p, None)),
      predict = (\<lambda>p X. Inr [1]),
      predict_proba = (\<lambda>p X. Inr [[1 / 10, 9 / 10]])\<rparr>"

definition lib_broken :: "unit sklearn" where
  "lib_broken =
     \<lparr>make_pipeline = Inl (Exception ''ImportError''),
      fit = (\<lambda>p X y. (p, Some (Exception ''NotFittedError''))),
      predict = (\<lambda>p X. Inl (Exception ''NotFittedError'')),
      predict_proba = (\<lambda>p X. Inl (Exception ''NotFittedError''))\<rparr>"

definition env_of :: "unit sklearn \<Rightarrow> real \<Rightarrow> real \<Rightarrow> unit env" where
  "env_of lb t0 t1 =
     \<lparr>lib = lb, time_start = t0, time_end = t1,
      raised_in_filter = None, raised_in_fusion = None\<rparr>"

definition env_raising :: "unit env" where
  "env_raising = (env_of lib_even 0 1)\<lparr>raised_in_fusion := Some (Exception ''MemoryError'')\<rparr>"

definition fresh :: "unit process" where
  "fresh = \<lparr>bias_pipeline = None, call_log = []\<rparr>"

definition trained :: "unit process" where
  "trained = \<lparr>bias_pipeline = Some (), call_log = []\<rparr>"

definition request :: "string \<Rightarrow> payload" where
  "request t = \<lparr>payload_text = t, session_id = None\<rparr>"

text \<open>An analyzer whose compound score depends on the text alone.\<close>

definition sample_nltk :: "unit nltk" where
  "sample_nltk =
     \<lparr>make_analyzer = Inr (),
      polarity_scores = (\<lambda>a t. Inr [''compound'' \<mapsto>
         (if t = ''good'' then 5 / 10 else if t = ''bad'' then - (5 / 10) else 1 / 100)])\<rparr>"

text \<open>Detections for running the scorer on concrete lists.\<close>

definition stupid_detection :: detection where
  "stupid_detection =
     \<lparr>category = ''pejorative'', keyword = ''stupid'', position = 8,
      context' = ''you are stupid'', weight = 1, confidence = 9 / 10,
      description = ''Derogatory or insulting language''\<rparr>"

definition women_detection :: "string \<Rightarrow> real \<Rightarrow> detection" where
  "women_detection text c =
     \<lparr>category = ''gender_bias'', keyword = ''women'', position = str_find text ''women'',
      context' = text, weight = 1, confidence = c,
      description = ''Gender-based discrimination or stereotyping''\<rparr>"

section \<open>Facts about the string operations\<close>

lemma char_of_nat_eval:
  "char_of (n::nat) = Char (odd n) (odd (n div 2)) (odd (n div 4)) (odd (n div 8))
     (odd (n div 16)) (odd (n div 32)) (odd (n div 64)) (odd (n div 128))"
  by (simp add: char_of_def bit_iff_odd)

lemma str_in_iff_sublist: "str_in k s \<longleftrightarrow> sublist k s"
  by (induction s) (simp_all add: sublist_Cons_right)

lemma str_in_set: "str_in k s \<Longrightarrow> set k \<subseteq> set s"
  unfolding str_in_iff_sublist by (rule set_mono_sublist)

lemma of_char_lower_char:
  assumes "is_capital c"
  shows "(of_char (lower_char c) :: nat) = of_char c + 32"
proof -
  from assms have "(of_char c :: nat) \<le> 222"
    unfolding is_capital_def Let_def by linarith
  then have "((of_char c :: nat) + 32) mod 256 = of_char c + 32"
    by simp
  with assms show ?thesis
    by (simp add: lower_char_def)
qed

text \<open>Lower-casing never produces a whitespace character from another character.\<close>

lemma isspace_lower_char: "isspace (lower_char c) \<Longrightarrow> isspace c"
proof (cases "is_capital c")
  case False
  assume "isspace (lower_char c)"
  with False show ?thesis by (simp add: lower_char_def)
next
  case True
  assume "isspace (lower_char c)"
  then have "(of_char c :: nat) + 32 \<in> {9, 10, 11, 12, 13, 28, 29, 30, 31, 32, 133, 160}"
    by (simp only: isspace_def of_char_lower_char [OF True])
  then have "(of_char c :: nat) = 0 \<or> (of_char c :: nat) = 101 \<or> (of_char c :: nat) = 128"
    by simp
  with True have False
    unfolding is_capital_def Let_def by linarith
  then show ?thesis ..
qed

text \<open>The tokens of \<open>split\<close> hold no whitespace.\<close>

lemma split_from_tokens:
  "(\<And>c. c \<in> set acc \<Longrightarrow> \<not> isspace c) \<Longrightarrow> w \<in> set (split_from s acc) \<Longrightarrow>
   c \<in> set w \<Longrightarrow> \<not> isspace c"
proof (induction s arbitrary: acc)
  case Nil
  then show ?case by (cases "acc = []") auto
next
  case (Cons a s)
  show ?case
  proof (cases "isspace a")
    case True
    show ?thesis
    proof (cases "acc = []")
      case True
      with \<open>isspace a\<close> Cons.prems(2) have "w \<in> set (split_from s [])" by simp
      then show ?thesis using Cons.IH [of "[]"] Cons.prems(3) by simp
    next
      case False
      with \<open>isspace a\<close> Cons.prems(2) have "w = acc \<or> w \<in> set (split_from s [])" by simp
      then show ?thesis
      proof
        assume "w = acc"
        then show ?thesis using Cons.prems(1,3) by blast
      next
        assume "w \<in> set (split_from s [])"
        then show ?thesis using Cons.IH [of "[]"] Cons.prems(3) by simp
      qed
    qed
  next
    case False
    with Cons.prems(2) have "w \<in> set (split_from s (acc @ [a]))" by simp
    moreover have "\<And>c. c \<in> set (acc @ [a]) \<Longrightarrow> \<not> isspace c"
      using Cons.prems(1) False by auto
    ultimately show ?thesis
      using Cons.IH [of "acc @ [a]"] Cons.prems(3) by blast
  qed
qed

lemma str_split_tokens: "w \<in> set (str_split s) \<Longrightarrow> c \<in> set w \<Longrightarrow> \<not> isspace c"
  using split_from_tokens [of "[]" w s c] by (simp add: str_split_def)

text \<open>Lower-casing leaves a whitespace character as it is.\<close>

lemma lower_char_space: "isspace c \<Longrightarrow> lower_char c = c"
proof -
  assume "isspace c"
  then have "(of_char c :: nat) \<in> {9, 10, 11, 12, 13, 28, 29, 30, 31, 32, 133, 160}"
    by (simp only: isspace_def)
  then have "(of_char c :: nat) \<le> 32 \<or> (of_char c :: nat) = 133 \<or> (of_char c :: nat) = 160"
    by auto
  then have "\<not> is_capital c"
    unfolding is_capital_def Let_def by linarith
  then show ?thesis
    by (simp add: lower_char_def)
qed

text \<open>
  A run of characters without whitespace that occurs in a text lies inside one of the
  tokens of \<open>split\<close>.
\<close>

lemma sublist_skip:
  assumes "c \<notin> set m" "m \<noteq> []" "sublist m (acc @ c # cs)"
  shows "sublist m acc \<or> sublist m cs"
proof -
  from assms(3) consider "sublist m acc" | "sublist m (c # cs)"
    | xs1 xs2 where "m = xs1 @ xs2" "suffix xs1 acc" "prefix xs2 (c # cs)"
    unfolding sublist_append by blast
  then show ?thesis
  proof cases
    case 1
    then show ?thesis ..
  next
    case 2
    then have "prefix m (c # cs) \<or> sublist m cs"
      by (simp add: sublist_Cons_right)
    moreover have "\<not> prefix m (c # cs)"
      using assms(1,2) by (cases m) auto
    ultimately show ?thesis by blast
  next
    case 3
    have "xs2 = []"
    proof (rule ccontr)
      assume "xs2 \<noteq> []"
      with 3(3) have "hd xs2 = c"
        by (cases xs2) auto
      with \<open>xs2 \<noteq> []\<close> 3(1) assms(1) show False
        by (cases xs2) auto
    qed
    with 3(1,2) have "suffix m acc" by simp
    then show ?thesis
      by (simp add: suffix_imp_sublist)
  qed
qed

lemma split_from_covers:
  "m \<noteq> [] \<Longrightarrow> (\<And>c. c \<in> set m \<Longrightarrow> \<not> isspace c) \<Longrightarrow> sublist m (acc @ s) \<Longrightarrow>
   \<exists>w\<in>set (split_from s acc). sublist m w"
proof (induction s arbitrary: acc)
  case Nil
  then have "acc \<noteq> []" by auto
  with Nil show ?case by simp
next
  case (Cons a s)
  show ?case
  proof (cases "isspace a")
    case True
    with Cons.prems(2) have "a \<notin> set m" by blast
    from sublist_skip [OF this Cons.prems(1,3)] show ?thesis
    proof
      assume in_acc: "sublist m acc"
      with Cons.prems(1) have "acc \<noteq> []" by auto
      with True in_acc show ?thesis by simp
    next
      assume "sublist m s"
      then have "sublist m ([] @ s)" by simp
      from Cons.IH [OF Cons.prems(1,2) this] obtain w
        where "w \<in> set (split_from s [])" "sublist m w" by blast
      with True show ?thesis by (cases "acc = []") auto
    qed
  next
    case False
    from Cons.prems(3) have "sublist m ((acc @ [a]) @ s)" by simp
    from Cons.IH [OF Cons.prems(1,2) this] False show ?thesis by simp
  qed
qed

lemma frac_digits_unfold:
  "frac_digits n r =
     (if n = 0 \<or> r = 0 then []
      else (let d = \<lfloor>r * 10\<rfloor> in digit_char (nat d) # frac_digits (n - 1) (r * 10 - of_int d)))"
  by (cases n) simp_all

lemma format_2f_values:
  "format_2f (9 / 10) = ''0.90''" "format_2f 1 = ''1.00''" "format_2f (7 / 10) = ''0.70''"
  by (simp_all add: format_2f_def round_half_even_def str_nat.simps digit_char_def
      char_of_nat_eval)

lemma str_float_values:
  "str_float (9 / 10) = ''0.9''" "str_float 1 = ''1.0''" "str_float (7 / 10) = ''0.7''"
  by (simp_all add: str_float_def str_nat.simps digit_char_def char_of_nat_eval
      frac_digits_unfold)

section \<open>Facts about the lexicon filter\<close>

lemma scan_keyword_eval:
  "scan_keyword text cat cfg kw =
     (if str_in kw (str_lower text) \<and> 0 \<le> word_index_from kw (str_split text) 0
      then [\<lparr>category = cat, keyword = kw, position = str_find (str_lower text) kw,
             context' = str_join '' '' (slice (str_split text)
                          (max 0 (word_index_from kw (str_split text) 0 - 2))
                          (min (int (length (str_split text)))
                               (word_index_from kw (str_split text) 0 + 3))),
             weight = cfg_weight cfg,
             confidence = hit_confidence cat cfg (str_lower text),
             description = cfg_description cfg\<rparr>]
      else [])"
  by (simp add: scan_keyword_def Let_def)

lemma in_scan_keyword:
  "d \<in> set (scan_keyword text cat cfg kw) \<Longrightarrow>
     str_in kw (str_lower text) \<and> 0 \<le> word_index_from kw (str_split text) 0 \<and>
     category d = cat \<and> keyword d = kw \<and> weight d = cfg_weight cfg \<and>
     confidence d = hit_confidence cat cfg (str_lower text)"
  by (auto simp: scan_keyword_eval split: if_splits)

lemma in_fast_lexicon_filter:
  "d \<in> set (fast_lexicon_filter text) \<longleftrightarrow>
     (\<exists>(cat, cfg) \<in> set BIAS_CATEGORIES. \<exists>kw \<in> set (cfg_keywords cfg).
        d \<in> set (scan_keyword text cat cfg kw))"
  by (auto simp: fast_lexicon_filter_def)

lemma word_index_from_found:
  "0 \<le> i \<Longrightarrow> 0 \<le> word_index_from kw ws i \<longleftrightarrow> (\<exists>w\<in>set ws. str_in kw (str_lower w))"
  by (induction ws arbitrary: i) auto

text \<open>
  The word loop finds a keyword without whitespace whenever the text holds it, and never
  finds a keyword with whitespace.
\<close>

lemma keyword_in_token:
  assumes "kw \<noteq> []" and nows: "\<And>c. c \<in> set kw \<Longrightarrow> \<not> isspace c"
    and "str_in kw (str_lower text)"
  shows "\<exists>w\<in>set (str_split text). str_in kw (str_lower w)"
proof -
  from assms(3) obtain ps ss where "map lower_char text = ps @ kw @ ss"
    unfolding str_in_iff_sublist str_lower_def sublist_def by blast
  then obtain ps' rest where rest: "text = ps' @ rest" "kw @ ss = map lower_char rest"
    by (auto simp: map_eq_append_conv)
  from rest(2) obtain m ss' where "rest = m @ ss'" "kw = map lower_char m"
    by (auto simp: append_eq_map_conv)
  with rest(1) have parts: "text = ps' @ m @ ss'" "map lower_char m = kw"
    by simp_all
  from parts(2) assms(1) have mne: "m \<noteq> []" by auto
  have "\<not> isspace c" if "c \<in> set m" for c
  proof
    assume "isspace c"
    then have "lower_char c = c" by (rule lower_char_space)
    with that parts(2) have "c \<in> set kw" by force
    with nows \<open>isspace c\<close> show False by blast
  qed
  moreover from parts(1) have "sublist m ([] @ text)"
    by (auto simp: sublist_def)
  ultimately obtain w where w: "w \<in> set (str_split text)" "sublist m w"
    using split_from_covers [OF mne, of "[]" "text"] unfolding str_split_def by blast
  from w(2) have "sublist (map lower_char m) (map lower_char w)"
    by (rule map_mono_sublist)
  with w(1) parts(2) show ?thesis
    unfolding str_in_iff_sublist str_lower_def by blast
qed

lemma token_keyword_no_space:
  assumes "w \<in> set (str_split text)" "str_in kw (str_lower w)" "c \<in> set kw"
  shows "\<not> isspace c"
proof -
  from assms(2,3) have "c \<in> set (str_lower w)"
    using str_in_set by blast
  then obtain c' where "c' \<in> set w" "c = lower_char c'"
    by (auto simp: str_lower_def)
  with assms(1) show ?thesis
    using str_split_tokens isspace_lower_char by blast
qed

lemma scan_keyword_pairs:
  assumes "kw \<noteq> []"
  shows "map (\<lambda>d. (category d, keyword d)) (scan_keyword text cat cfg kw) =
     (if str_in kw (str_lower text) \<and> (\<forall>c\<in>set kw. \<not> isspace c) then [(cat, kw)] else [])"
proof -
  have "0 \<le> word_index_from kw (str_split text) 0 \<longleftrightarrow>
      (\<exists>w\<in>set (str_split text). str_in kw (str_lower w))"
    by (rule word_index_from_found) simp
  moreover have "(\<exists>w\<in>set (str_split text). str_in kw (str_lower w)) \<Longrightarrow> \<forall>c\<in>set kw. \<not> isspace c"
    using token_keyword_no_space by blast
  moreover have "str_in kw (str_lower text) \<Longrightarrow> \<forall>c\<in>set kw. \<not> isspace c \<Longrightarrow>
      \<exists>w\<in>set (str_split text). str_in kw (str_lower w)"
    using keyword_in_token [OF assms] by blast
  ultimately show ?thesis
    unfolding scan_keyword_eval by auto
qed

lemma keywords_nonempty:
  "(cat, cfg) \<in> set BIAS_CATEGORIES \<Longrightarrow> kw \<in> set (cfg_keywords cfg) \<Longrightarrow> kw \<noteq> []"
  by (auto simp: BIAS_CATEGORIES_def)

text \<open>
  The detections, as pairs of category and keyword, are exactly the pairs of the table,
  in the order of the table, whose keyword holds no whitespace and occurs in the
  lower-cased text: one detection for each such pair, none for any other.
\<close>

lemma detected_pairs:
  "map (\<lambda>d. (category d, keyword d)) (fast_lexicon_filter text) =
     filter (\<lambda>(cat, kw). str_in kw (str_lower text) \<and> (\<forall>c\<in>set kw. \<not> isspace c)) keyword_pairs"
proof -
  let ?P = "\<lambda>(cat, kw). str_in kw (str_lower text) \<and> (\<forall>c\<in>set kw. \<not> isspace c)"
  have row: "concat (map (\<lambda>kw. map (\<lambda>d. (category d, keyword d)) (scan_keyword text cat cfg kw))
            kws) = filter ?P (map (Pair cat) kws)"
    if "\<forall>kw\<in>set kws. kw \<noteq> []" for cat cfg kws
    using that by (induction kws) (simp_all add: scan_keyword_pairs)
  have "concat (map (\<lambda>(cat, cfg). concat (map (\<lambda>kw. map (\<lambda>d. (category d, keyword d))
            (scan_keyword text cat cfg kw)) (cfg_keywords cfg))) tab) =
        filter ?P (concat (map (\<lambda>(cat, cfg). map (Pair cat) (cfg_keywords cfg)) tab))"
    if "set tab \<subseteq> set BIAS_CATEGORIES" for tab
    using that
  proof (induction tab)
    case Nil
    show ?case by simp
  next
    case (Cons entry tab)
    obtain cat cfg where entry: "entry = (cat, cfg)" by (cases entry)
    with Cons.prems have "\<forall>kw\<in>set (cfg_keywords cfg). kw \<noteq> []"
      using keywords_nonempty by auto
    from row [OF this] Cons show ?case
      by (simp add: entry)
  qed
  from this [of BIAS_CATEGORIES] show ?thesis
    unfolding fast_lexicon_filter_def keyword_pairs_def
    by (simp add: map_concat comp_def case_prod_unfold)
qed

lemma table_weights:
  "(cat, cfg) \<in> set BIAS_CATEGORIES \<Longrightarrow> 0 \<le> cfg_weight cfg \<and> cfg_weight cfg \<le> 1"
  by (auto simp: BIAS_CATEGORIES_def)

lemma hit_confidence_values: "hit_confidence cat cfg low \<in> {7 / 10, 9 / 10, 1}"
  by (simp add: hit_confidence_def)

lemma filter_detections_in_range:
  assumes "d \<in> set (fast_lexicon_filter text)"
  shows "0 \<le> weight d \<and> weight d \<le> 1 \<and> 0 \<le> confidence d \<and> confidence d \<le> 1"
proof -
  from assms obtain cat cfg kw where
    tab: "(cat, cfg) \<in> set BIAS_CATEGORIES" and d: "d \<in> set (scan_keyword text cat cfg kw)"
    unfolding in_fast_lexicon_filter by blast
  from in_scan_keyword [OF d]
  have "weight d = cfg_weight cfg" "confidence d = hit_confidence cat cfg (str_lower text)"
    by simp_all
  then show ?thesis
    using table_weights [OF tab] hit_confidence_values [of cat cfg "str_lower text"] by auto
qed

lemma contexts_of_simps:
  "contexts_of ''gender_bias'' =
     [''not good'', ''shouldn't'', ''can't'', ''cannot'', ''too'', ''only'', ''prefer'',
      ''not suitable'']"
  "contexts_of ''age_bias'' =
     [''too'', ''not suitable'', ''shouldn't'', ''can't'', ''cannot'', ''not good'', ''only'',
      ''prefer'']"
  by (simp_all add: contexts_of_def BIAS_CATEGORIES_def)

lemma hit_confidence_table:
  assumes "(cat, cfg) \<in> set BIAS_CATEGORIES"
  shows "hit_confidence cat cfg low =
     (if cat \<in> {''gender_bias'', ''age_bias''}
      then (if \<exists>ctx \<in> set (contexts_of cat). str_in ctx low then 1 else 7 / 10)
      else 9 / 10)"
proof -
  from assms consider
      "cat = ''gender_bias''" "cfg_contexts cfg = Some (contexts_of ''gender_bias'')"
    | "cat = ''age_bias''" "cfg_contexts cfg = Some (contexts_of ''age_bias'')"
    | "cat \<notin> {''gender_bias'', ''age_bias''}"
    unfolding contexts_of_simps by (auto simp: BIAS_CATEGORIES_def)
  then show ?thesis
  proof cases
    case 1
    then show ?thesis by (simp add: hit_confidence_def list_ex_iff)
  next
    case 2
    then show ?thesis by (simp add: hit_confidence_def list_ex_iff)
  next
    case 3
    then show ?thesis by (simp add: hit_confidence_def)
  qed
qed

text \<open>The filter on three short texts.\<close>

lemma lower_obviously: "str_lower ''obviously'' = ''obviously''"
  by (simp add: str_lower_def lower_char_def is_capital_def)

lemma split_obviously: "str_split ''obviously'' = [''obviously'']"
  by (simp add: str_split_def isspace_def)

lemma filter_obviously:
  "fast_lexicon_filter ''obviously'' =
     [\<lparr>category = ''subjective'', keyword = ''obviously'', position = 0,
       context' = ''obviously'', weight = 6 / 10, confidence = 9 / 10,
       description = ''Opinion-based rather than fact-based language''\<rparr>,
      \<lparr>category = ''confirmation_bias'', keyword = ''obviously'', position = 0,
       context' = ''obviously'', weight = 5 / 10, confidence = 9 / 10,
       description = ''Language that confirms existing beliefs without evidence''\<rparr>]"
  unfolding fast_lexicon_filter_def BIAS_CATEGORIES_def
  by (simp add: scan_keyword_eval lower_obviously split_obviously hit_confidence_def
      slice_def slice_index_def)

lemma lower_as_expected: "str_lower ''as expected'' = ''as expected''"
  by (simp add: str_lower_def lower_char_def is_capital_def)

lemma split_as_expected: "str_split ''as expected'' = [''as'', ''expected'']"
  by (simp add: str_split_def isspace_def)

lemma filter_as_expected: "fast_lexicon_filter ''as expected'' = []"
  unfolding fast_lexicon_filter_def BIAS_CATEGORIES_def
  by (simp add: scan_keyword_eval lower_as_expected split_as_expected str_lower_def
      lower_char_def is_capital_def)

lemma lower_only_women: "str_lower ''Only women'' = ''only women''"
  by (simp add: str_lower_def lower_char_def is_capital_def char_of_nat_eval)

lemma split_only_women: "str_split ''Only women'' = [''Only'', ''women'']"
  by (simp add: str_split_def isspace_def)

lemma filter_only_women:
  "fast_lexicon_filter ''Only women'' =
     [women_detection ''Only women'' 1,
      \<lparr>category = ''gender_bias'', keyword = ''men'', position = 7,
       context' = ''Only women'', weight = 1, confidence = 1,
       description = ''Gender-based discrimination or stereotyping''\<rparr>]"
  unfolding fast_lexicon_filter_def BIAS_CATEGORIES_def
  by (simp add: scan_keyword_eval lower_only_women split_only_women hit_confidence_def
      slice_def slice_index_def women_detection_def str_lower_def lower_char_def
      is_capital_def char_of_nat_eval)

lemma lower_always_tend_to: "str_lower ''always tend to'' = ''always tend to''"
  by (simp add: str_lower_def lower_char_def is_capital_def)

lemma split_always_tend_to: "str_split ''always tend to'' = [''always'', ''tend'', ''to'']"
  by (simp add: str_split_def isspace_def)

lemma filter_always_tend_to:
  "fast_lexicon_filter ''always tend to'' =
     [\<lparr>category = ''subjective'', keyword = ''always'', position = 0,
       context' = ''always tend to'', weight = 6 / 10, confidence = 9 / 10,
       description = ''Opinion-based rather than fact-based language''\<rparr>,
      \<lparr>category = ''stereotyping'', keyword = ''always'', position = 0,
       context' = ''always tend to'', weight = 8 / 10, confidence = 9 / 10,
       description = ''Generalizations based on group characteristics''\<rparr>]"
  unfolding fast_lexicon_filter_def BIAS_CATEGORIES_def
  by (simp add: scan_keyword_eval lower_always_tend_to split_always_tend_to hit_confidence_def
      slice_def slice_index_def str_lower_def lower_char_def is_capital_def)

lemma lower_women: "str_lower ''women'' = ''women''"
  by (simp add: str_lower_def lower_char_def is_capital_def)

lemma split_women: "str_split ''women'' = [''women'']"
  by (simp add: str_split_def isspace_def)

lemma filter_women:
  "fast_lexicon_filter ''women'' =
     [women_detection ''women'' (7 / 10),
      \<lparr>category = ''gender_bias'', keyword = ''men'', position = 2,
       context' = ''women'', weight = 1, confidence = 7 / 10,
       description = ''Gender-based discrimination or stereotyping''\<rparr>]"
  unfolding fast_lexicon_filter_def BIAS_CATEGORIES_def
  by (simp add: scan_keyword_eval lower_women split_women hit_confidence_def
      slice_def slice_index_def women_detection_def)

section \<open>The fused score: formula and range\<close>

lemma sum_list_weighted_nonneg:
  "\<forall>d\<in>set ds. 0 \<le> weight d \<and> 0 \<le> confidence d \<Longrightarrow>
   0 \<le> (\<Sum>d\<leftarrow>ds. weight d * confidence d)"
  by (induction ds) simp_all

lemma spec_lexicon_component_bounds:
  assumes "\<forall>d\<in>set ds. 0 \<le> weight d \<and> 0 \<le> confidence d"
  shows "0 \<le> spec_lexicon_component ds" and "spec_lexicon_component ds \<le> 1"
  using sum_list_weighted_nonneg [OF assms]
  by (simp_all add: spec_lexicon_component_def)

lemma calculate_overall_bias_score_unfold:
  "calculate_overall_bias_score ds ml_biased ml_confidence =
     min (7 / 10 * spec_lexicon_component ds
          + 3 / 10 * spec_ml_component ml_biased ml_confidence) 1"
proof (cases "ds = [] \<and> \<not> ml_biased")
  case True
  then show ?thesis
    by (simp add: calculate_overall_bias_score_def spec_lexicon_component_def
        spec_ml_component_def)
next
  case False
  then have "calculate_overall_bias_score ds ml_biased ml_confidence =
      min (spec_lexicon_component ds * (7 / 10)
           + spec_ml_component ml_biased ml_confidence * (3 / 10)) 1"
    unfolding calculate_overall_bias_score_def spec_lexicon_component_def
      spec_ml_component_def Let_def
    by (simp only: min.commute [of 1] if_not_P if_P split: if_split) simp
  then show ?thesis
    by (simp add: mult.commute)
qed

lemma score_in_unit_interval:
  assumes "\<forall>d\<in>set ds. 0 \<le> weight d \<and> 0 \<le> confidence d"
    and "0 \<le> ml_confidence" "ml_confidence \<le> 1"
  shows "0 \<le> 7 / 10 * spec_lexicon_component ds
               + 3 / 10 * spec_ml_component ml_biased ml_confidence"
    and "7 / 10 * spec_lexicon_component ds
           + 3 / 10 * spec_ml_component ml_biased ml_confidence \<le> 1"
proof -
  let ?l = "spec_lexicon_component ds" and ?m = "spec_ml_component ml_biased ml_confidence"
  have l: "0 \<le> ?l" "?l \<le> 1"
    using spec_lexicon_component_bounds [OF assms(1)] by simp_all
  have m: "0 \<le> ?m" "?m \<le> 1"
    using assms(2,3) by (simp_all add: spec_ml_component_def)
  show "0 \<le> 7 / 10 * ?l + 3 / 10 * ?m"
    using l(1) m(1) by simp
  show "7 / 10 * ?l + 3 / 10 * ?m \<le> 1"
    using l(2) m(2) by simp
qed

text \<open>
  C1.  For every list of detections whose weights and confidences are not negative and
  every classifier result whose confidence lies between 0 and 1, the fused score is
  0.7 times the lexicon component plus 0.3 times the classifier component, and it lies
  between 0 and 1.
\<close>

theorem bias_score_formula_and_range:
  assumes dets: "\<forall>d\<in>set ds. 0 \<le> weight d \<and> 0 \<le> confidence d"
    and ml: "0 \<le> ml_confidence" "ml_confidence \<le> 1"
  shows "calculate_overall_bias_score ds ml_biased ml_confidence =
           7 / 10 * spec_lexicon_component ds
           + 3 / 10 * spec_ml_component ml_biased ml_confidence
         \<and> 0 \<le> calculate_overall_bias_score ds ml_biased ml_confidence
         \<and> calculate_overall_bias_score ds ml_biased ml_confidence \<le> 1"
  using score_in_unit_interval [OF assms, of ml_biased]
  by (simp add: calculate_overall_bias_score_unfold)

theorem bias_score_formula_and_range_witness:
  "0 \<le> weight stupid_detection \<and> 0 \<le> confidence stupid_detection
   \<and> (0::real) \<le> 8 / 10 \<and> (8 / 10 :: real) \<le> 1
   \<and> calculate_overall_bias_score [stupid_detection] True (8 / 10) = 87 / 100
   \<and> 7 / 10 * spec_lexicon_component [stupid_detection]
       + 3 / 10 * spec_ml_component True (8 / 10) = 87 / 100"
proof -
  have h: "\<forall>d\<in>set [stupid_detection]. 0 \<le> weight d \<and> 0 \<le> confidence d"
    by (simp add: stupid_detection_def)
  have v: "7 / 10 * spec_lexicon_component [stupid_detection]
       + 3 / 10 * spec_ml_component True (8 / 10) = 87 / 100"
    by (simp add: spec_lexicon_component_def spec_ml_component_def stupid_detection_def)
  show ?thesis
    using bias_score_formula_and_range [OF h, of "8 / 10" True] h v by simp
qed

section \<open>The confidence of a detection\<close>

text \<open>
  C3.  Every detection of the lexicon filter in the category gender_bias or age_bias has
  confidence 1.0 when a phrase of that category's context list occurs in the lower-cased
  text and 0.7 when none does; every detection of another category has confidence 0.9.
\<close>

theorem lexicon_confidence:
  assumes "d \<in> set (fast_lexicon_filter text)"
  shows "(category d \<in> {''gender_bias'', ''age_bias''} \<longrightarrow>
            confidence d =
              (if \<exists>ctx \<in> set (contexts_of (category d)). str_in ctx (str_lower text)
               then 1 else 7 / 10))
         \<and> (category d \<notin> {''gender_bias'', ''age_bias''} \<longrightarrow> confidence d = 9 / 10)"
proof -
  from assms obtain cat cfg kw where
    tab: "(cat, cfg) \<in> set BIAS_CATEGORIES" and d: "d \<in> set (scan_keyword text cat cfg kw)"
    unfolding in_fast_lexicon_filter by blast
  from in_scan_keyword [OF d]
  have "category d = cat" "confidence d = hit_confidence cat cfg (str_lower text)"
    by simp_all
  then show ?thesis
    using hit_confidence_table [OF tab, of "str_lower text"] by simp
qed

theorem lexicon_confidence_witness:
  "women_detection ''Only women'' 1 \<in> set (fast_lexicon_filter ''Only women'')
   \<and> category (women_detection ''Only women'' 1) \<in> {''gender_bias'', ''age_bias''}
   \<and> (\<exists>ctx \<in> set (contexts_of ''gender_bias''). str_in ctx (str_lower ''Only women''))
   \<and> confidence (women_detection ''Only women'' 1) = 1
   \<and> women_detection ''women'' (7 / 10) \<in> set (fast_lexicon_filter ''women'')
   \<and> \<not> (\<exists>ctx \<in> set (contexts_of ''gender_bias''). str_in ctx (str_lower ''women''))
   \<and> confidence (women_detection ''women'' (7 / 10)) = 7 / 10
   \<and> hd (fast_lexicon_filter ''obviously'') \<in> set (fast_lexicon_filter ''obviously'')
   \<and> category (hd (fast_lexicon_filter ''obviously'')) \<notin> {''gender_bias'', ''age_bias''}
   \<and> confidence (hd (fast_lexicon_filter ''obviously'')) = 9 / 10"
proof -
  have m1: "women_detection ''Only women'' 1 \<in> set (fast_lexicon_filter ''Only women'')"
    by (simp add: filter_only_women)
  have c1: "\<exists>ctx \<in> set (contexts_of ''gender_bias''). str_in ctx (str_lower ''Only women'')"
    by (simp add: contexts_of_simps lower_only_women)
  have m2: "women_detection ''women'' (7 / 10) \<in> set (fast_lexicon_filter ''women'')"
    by (simp add: filter_women)
  have c2: "\<not> (\<exists>ctx \<in> set (contexts_of ''gender_bias''). str_in ctx (str_lower ''women''))"
    by (simp add: contexts_of_simps lower_women)
  have m3: "hd (fast_lexicon_filter ''obviously'') \<in> set (fast_lexicon_filter ''obviously'')"
    by (simp add: filter_obviously)
  have c3: "category (hd (fast_lexicon_filter ''obviously'')) \<notin> {''gender_bias'', ''age_bias''}"
    by (simp add: filter_obviously)
  have g: "category (women_detection t c) = ''gender_bias''" for t c
    by (simp add: women_detection_def)
  from lexicon_confidence [OF m1] c1 have "confidence (women_detection ''Only women'' 1) = 1"
    by (simp add: g)
  moreover from lexicon_confidence [OF m2] c2
  have "confidence (women_detection ''women'' (7 / 10)) = 7 / 10"
    by (simp add: g)
  moreover from lexicon_confidence [OF m3] c3
  have "confidence (hd (fast_lexicon_filter ''obviously'')) = 9 / 10"
    by simp
  ultimately show ?thesis
    using m1 c1 m2 c2 m3 c3 by (simp add: g)
qed

section \<open>Keywords of more than one word\<close>

text \<open>
  C10.  A detection is recorded only if its keyword lies inside one whitespace-delimited
  token of the text; so no detection has a keyword with a space, and the entries
  "tend to", "as expected" and "not surprising" of the tables never match, whatever the
  text.
\<close>

theorem no_keyword_with_space:
  assumes "d \<in> set (fast_lexicon_filter text)"
  shows "(\<exists>w\<in>set (str_split text). str_in (keyword d) (str_lower w))
         \<and> CHR '' '' \<notin> set (keyword d)
         \<and> keyword d \<notin> {''tend to'', ''as expected'', ''not surprising''}"
proof -
  from assms obtain cat cfg kw where d: "d \<in> set (scan_keyword text cat cfg kw)"
    unfolding in_fast_lexicon_filter by blast
  from in_scan_keyword [OF d]
  have kw: "keyword d = kw" and idx: "0 \<le> word_index_from kw (str_split text) 0"
    by simp_all
  from idx obtain w where w: "w \<in> set (str_split text)" "str_in kw (str_lower w)"
    using word_index_from_found [of 0 kw "str_split text"] by auto
  have sp: "CHR '' '' \<notin> set kw"
    using token_keyword_no_space [OF w, of "CHR '' ''"] by (auto simp: isspace_def)
  have "CHR '' '' \<in> set ''tend to''" "CHR '' '' \<in> set ''as expected''"
    "CHR '' '' \<in> set ''not surprising''"
    by simp_all
  with sp have "kw \<noteq> ''tend to''" "kw \<noteq> ''as expected''" "kw \<noteq> ''not surprising''"
    by blast+
  then have "kw \<notin> {''tend to'', ''as expected'', ''not surprising''}"
    by (simp only: insert_iff empty_iff) blast
  with w sp show ?thesis
    unfolding kw by blast
qed

theorem no_keyword_with_space_witness:
  "hd (fast_lexicon_filter ''always tend to'') \<in> set (fast_lexicon_filter ''always tend to'')
   \<and> str_in ''tend to'' (str_lower ''always tend to'')
   \<and> map keyword (fast_lexicon_filter ''always tend to'') = [''always'', ''always'']
   \<and> CHR '' '' \<notin> set (keyword (hd (fast_lexicon_filter ''always tend to'')))"
proof -
  have mem: "hd (fast_lexicon_filter ''always tend to'') \<in> set (fast_lexicon_filter ''always tend to'')"
    by (simp add: filter_always_tend_to)
  have occ: "str_in ''tend to'' (str_lower ''always tend to'')"
    by (simp add: lower_always_tend_to)
  show ?thesis
    using no_keyword_with_space [OF mem] mem occ by (simp add: filter_always_tend_to)
qed

section \<open>One detection for each pair of category and keyword\<close>

text \<open>
  C9.  The keyword "as expected" of the category confirmation_bias occurs in the text
  "as expected", and the filter records no detection for it; while "obviously", listed by
  two categories, is recorded once for each.  For the keywords without whitespace the
  filter does record one detection for each pair whose keyword occurs (lemma
  \<open>detected_pairs\<close>).
\<close>

theorem multi_word_keyword_dropped:
  "(''confirmation_bias'', ''as expected'') \<in> set keyword_pairs
   \<and> str_in ''as expected'' (str_lower ''as expected'')
   \<and> fast_lexicon_filter ''as expected'' = []
   \<and> map (\<lambda>d. (category d, keyword d)) (fast_lexicon_filter ''obviously'') =
       [(''subjective'', ''obviously''), (''confirmation_bias'', ''obviously'')]"
proof -
  have "(''confirmation_bias'', ''as expected'') \<in> set keyword_pairs"
    by (simp add: keyword_pairs_def BIAS_CATEGORIES_def)
  moreover have "str_in ''as expected'' (str_lower ''as expected'')"
    by (simp add: lower_as_expected)
  ultimately show ?thesis
    by (simp add: filter_as_expected filter_obviously)
qed

section \<open>Facts about the classifier and the endpoint\<close>

lemma load_bias_pipeline_loaded: "load_bias_pipeline lb (Some pl) = (Inr pl, Some pl)"
  by (simp add: load_bias_pipeline_def)

lemma sentence_level_classification_loaded:
  "snd (sentence_level_classification lb (Some pl) text) = Some pl"
  by (simp add: sentence_level_classification_def load_bias_pipeline_loaded split: sum.splits)

lemma sentence_level_classification_fails:
  "classifier_fails lb g text \<Longrightarrow> fst (sentence_level_classification lb g text) = (False, 0)"
  by (auto simp: classifier_fails_def sentence_level_classification_def
      split: prod.splits sum.splits)

text \<open>The three ways through the try block.\<close>

lemma detect_try_empty:
  "str_strip (payload_text p) = [] \<Longrightarrow>
   detect_try env st p =
     (Inr \<lparr>is_biased = False, overall_confidence = 0, categories = [],
           highlighted_text = [], bias_score = 0, processing_time_ms = 0\<rparr>, st)"
  by (simp add: detect_try_def)

lemma detect_try_normal:
  assumes "str_strip (payload_text p) \<noteq> []"
    and "raised_in_filter env = None" "raised_in_fusion env = None"
  shows "detect_try env st p =
     (let text = str_strip (payload_text p);
          r = sentence_level_classification (lib env) (bias_pipeline st) text
      in (Inr (fuse env text (fast_lexicon_filter text) (fst (fst r)) (snd (fst r))),
          \<lparr>bias_pipeline = snd r,
           call_log = call_log st @ [FastLexiconFilter text, SentenceLevelClassification text]\<rparr>))"
  using assms by (simp add: detect_try_def Let_def split: prod.splits)

lemma detect_try_raised:
  assumes "str_strip (payload_text p) \<noteq> []"
    and "raised_in_filter env \<noteq> None \<or> raised_in_fusion env \<noteq> None"
  shows "\<exists>e st'. detect_try env st p = (Inl e, st')"
  using assms by (auto simp: detect_try_def Let_def split: prod.splits option.splits)

lemma detect_try_pipeline:
  "bias_pipeline st = Some pl \<Longrightarrow> bias_pipeline (snd (detect_try env st p)) = Some pl"
  using sentence_level_classification_loaded [of "lib env" pl "str_strip (payload_text p)"]
  by (auto simp: detect_try_def Let_def split: prod.splits option.splits)


text \<open>
  At the endpoint: whatever the text, the score of the response lies between 0 and 1 as
  soon as the classifier's confidence does.
\<close>

lemma endpoint_score_in_range:
  assumes r: "fst (detect_realtime_bias env st p) = Inr r"
    and c: "0 \<le> snd (fst (sentence_level_classification (lib env) (bias_pipeline st)
                             (str_strip (payload_text p))))"
           "snd (fst (sentence_level_classification (lib env) (bias_pipeline st)
                             (str_strip (payload_text p)))) \<le> 1"
  shows "0 \<le> bias_score r \<and> bias_score r \<le> 1"
proof -
  let ?text = "str_strip (payload_text p)"
  let ?ml = "fst (sentence_level_classification (lib env) (bias_pipeline st) ?text)"
  consider (empty) "?text = []"
    | (normal) "?text \<noteq> []" "raised_in_filter env = None" "raised_in_fusion env = None"
    | (raised) "?text \<noteq> []" "raised_in_filter env \<noteq> None \<or> raised_in_fusion env \<noteq> None"
    by blast
  then show ?thesis
  proof cases
    case empty
    with r show ?thesis
      by (auto simp: detect_realtime_bias_def detect_try_empty)
  next
    case normal
    have dets: "\<forall>d\<in>set (fast_lexicon_filter ?text). 0 \<le> weight d \<and> 0 \<le> confidence d"
      using filter_detections_in_range by blast
    from r have "bias_score r =
        calculate_overall_bias_score (fast_lexicon_filter ?text) (fst ?ml) (snd ?ml)"
      by (auto simp: detect_realtime_bias_def detect_try_normal [OF normal] Let_def fuse_def)
    then show ?thesis
      using score_in_unit_interval [OF dets c, of "fst ?ml"]
      by (simp add: calculate_overall_bias_score_unfold)
  next
    case raised
    from detect_try_raised [OF raised] obtain e st' where "detect_try env st p = (Inl e, st')"
      by blast
    with r show ?thesis
      by (auto simp: detect_realtime_bias_def)
  qed
qed

section \<open>The empty text\<close>

text \<open>
  C4.  On the empty text the endpoint returns the result that is not biased, with
  confidence 0.0, score 0.0, no categories and the empty highlighted text; the state of
  the process, its call log included, is left as it was, so neither the lexicon filter
  nor the classifier has been invoked.
\<close>

theorem empty_text_short_circuit:
  "detect_realtime_bias env st \<lparr>payload_text = [], session_id = sid\<rparr> =
     (Inr \<lparr>is_biased = False, overall_confidence = 0, categories = [],
           highlighted_text = [], bias_score = 0, processing_time_ms = 0\<rparr>, st)
   \<and> call_log (snd (detect_realtime_bias env st \<lparr>payload_text = [], session_id = sid\<rparr>)) =
       call_log st
   \<and> bias_pipeline (snd (detect_realtime_bias env st \<lparr>payload_text = [], session_id = sid\<rparr>)) =
       bias_pipeline st"
  by (simp add: detect_realtime_bias_def detect_try_empty str_strip_def)

text \<open>On any other text the log does grow, by one call of each detector.\<close>

lemma detect_logs_calls:
  assumes "str_strip (payload_text p) \<noteq> []"
    and "raised_in_filter env = None" "raised_in_fusion env = None"
  shows "call_log (snd (detect_realtime_bias env st p)) =
           call_log st @ [FastLexiconFilter (str_strip (payload_text p)),
                          SentenceLevelClassification (str_strip (payload_text p))]"
  by (simp add: detect_realtime_bias_def detect_try_normal [OF assms] Let_def)

section \<open>The fused verdict and confidence\<close>

lemma max_default_Max:
  "xs \<noteq> [] \<or> 0 \<le> m \<Longrightarrow> max (max_default xs 0) m = Max (insert m (set xs))"
proof (cases xs)
  case Nil
  assume "xs \<noteq> [] \<or> 0 \<le> m"
  with Nil show ?thesis by (simp add: max_default_def)
next
  case (Cons x ys)
  have "max_default xs 0 = Max (set xs)"
    unfolding Cons max_default_def by (simp only: list.case Max.set_eq_fold)
  then show ?thesis
    by (simp add: Cons max.commute)
qed

text \<open>
  C2, amended.  For every text that is not empty once its surrounding whitespace is
  stripped, in a run in which no unexpected exception is raised and the classifier's
  confidence on the stripped text is not negative: the result is biased if and only if
  the lexicon filter produced a detection on the stripped text or the classifier flagged
  it, and its confidence is the maximum of the detections' confidences and the
  classifier's confidence.
\<close>

theorem fused_verdict:
  assumes nonempty: "str_strip (payload_text p) \<noteq> []"
    and quiet: "raised_in_filter env = None" "raised_in_fusion env = None"
    and ml: "fst (sentence_level_classification (lib env) (bias_pipeline st)
                   (str_strip (payload_text p))) = (ml_biased, ml_confidence)"
    and nonneg: "0 \<le> ml_confidence"
  shows "\<exists>r. fst (detect_realtime_bias env st p) = Inr r
           \<and> is_biased r =
               (fast_lexicon_filter (str_strip (payload_text p)) \<noteq> [] \<or> ml_biased)
           \<and> overall_confidence r =
               Max (insert ml_confidence
                     (confidence ` set (fast_lexicon_filter (str_strip (payload_text p)))))"
proof -
  let ?text = "str_strip (payload_text p)"
  have "fst (detect_realtime_bias env st p) =
          Inr (fuse env ?text (fast_lexicon_filter ?text) ml_biased ml_confidence)"
    using ml by (simp add: detect_realtime_bias_def detect_try_normal [OF nonempty quiet] Let_def)
  moreover have "max (max_default (map confidence (fast_lexicon_filter ?text)) 0) ml_confidence
      = Max (insert ml_confidence (confidence ` set (fast_lexicon_filter ?text)))"
    using max_default_Max [of "map confidence (fast_lexicon_filter ?text)" ml_confidence] nonneg
    by simp
  ultimately show ?thesis
    by (simp add: fuse_def)
qed


lemma strip_samples:
  "str_strip '' '' = []" "str_strip ''obviously'' = ''obviously''"
  "str_strip '' Obviously '' = ''Obviously''"
  by (simp_all add: str_strip_def isspace_def)

lemma classification_samples:
  "sentence_level_classification lib_even (Some ()) t = ((False, 5 / 10), Some ())"
  "sentence_level_classification lib_flagging (Some ()) t = ((True, 9 / 10), Some ())"
  "sentence_level_classification lib_broken None t = ((False, 0), None)"
  by (simp_all add: sentence_level_classification_def load_bias_pipeline_def classify_def
      first_def max_of_def lib_even_def lib_flagging_def lib_broken_def)

lemma filter_blank: "fast_lexicon_filter '' '' = []"
  unfolding fast_lexicon_filter_def BIAS_CATEGORIES_def
  by (simp add: scan_keyword_eval str_lower_def lower_char_def is_capital_def)

text \<open>
  C2 as stated fails on the text of one space: it is not empty, the lexicon filter finds
  nothing in it, a classifier asked about it would flag it with confidence 0.9 (or not
  flag it with confidence 0.5); the endpoint strips it, asks no one, and answers not
  biased with confidence 0.0.
\<close>

theorem whitespace_text_not_fused:
  "payload_text (request '' '') \<noteq> []
   \<and> fast_lexicon_filter '' '' = []
   \<and> fst (sentence_level_classification lib_flagging (bias_pipeline trained) '' '') =
       (True, 9 / 10)
   \<and> fst (detect_realtime_bias (env_of lib_flagging 0 1) trained (request '' '')) =
       Inr \<lparr>is_biased = False, overall_confidence = 0, categories = [],
            highlighted_text = [], bias_score = 0, processing_time_ms = 0\<rparr>
   \<and> fst (sentence_level_classification lib_even (bias_pipeline trained) '' '') =
       (False, 5 / 10)
   \<and> fst (detect_realtime_bias (env_of lib_even 0 1) trained (request '' '')) =
       Inr \<lparr>is_biased = False, overall_confidence = 0, categories = [],
            highlighted_text = [], bias_score = 0, processing_time_ms = 0\<rparr>"
  by (simp add: request_def trained_def filter_blank classification_samples
      detect_realtime_bias_def detect_try_empty strip_samples)

theorem fused_verdict_witness:
  "str_strip (payload_text (request ''obviously'')) \<noteq> []
   \<and> raised_in_filter (env_of lib_flagging 0 1) = None
   \<and> raised_in_fusion (env_of lib_flagging 0 1) = None
   \<and> fst (sentence_level_classification (lib (env_of lib_flagging 0 1)) (bias_pipeline trained)
            (str_strip (payload_text (request ''obviously'')))) = (True, 9 / 10)
   \<and> (\<exists>r. fst (detect_realtime_bias (env_of lib_flagging 0 1) trained (request ''obviously''))
              = Inr r \<and> is_biased r \<and> overall_confidence r = 9 / 10)"
proof -
  let ?env = "env_of lib_flagging 0 1" and ?p = "request ''obviously''"
  have h1: "str_strip (payload_text ?p) \<noteq> []"
    by (simp add: request_def strip_samples)
  have h2: "raised_in_filter ?env = None" and h3: "raised_in_fusion ?env = None"
    by (simp_all add: env_of_def)
  have h4: "fst (sentence_level_classification (lib ?env) (bias_pipeline trained)
                  (str_strip (payload_text ?p))) = (True, 9 / 10)"
    by (simp add: env_of_def trained_def classification_samples)
  have h5: "(0::real) \<le> 9 / 10"
    by simp
  have stripped: "str_strip (payload_text ?p) = ''obviously''"
    by (simp add: request_def strip_samples)
  show ?thesis
    using fused_verdict [OF h1 h2 h3 h4 h5] h1 h2 h3 h4
    unfolding stripped filter_obviously by auto
qed

section \<open>No error reaches the caller\<close>

text \<open>
  C6.  The endpoint always returns a response, never an exception.  When loading the
  pipeline or predicting raises, the classification is (False, 0.0) and the response is
  the fusion of the lexicon detections with that; when an exception is raised elsewhere
  in the try block, the response is not biased, with confidence 0.0, score 0.0, no
  categories, and the text of the request, unstripped, as highlighted text.
\<close>

theorem never_raises:
  "\<exists>r. fst (detect_realtime_bias env st p) = Inr r
     \<and> (classifier_fails (lib env) (bias_pipeline st) (str_strip (payload_text p)) \<longrightarrow>
          fst (sentence_level_classification (lib env) (bias_pipeline st)
                 (str_strip (payload_text p))) = (False, 0))
     \<and> (str_strip (payload_text p) \<noteq> [] \<and> raised_in_filter env = None
          \<and> raised_in_fusion env = None
          \<and> classifier_fails (lib env) (bias_pipeline st) (str_strip (payload_text p)) \<longrightarrow>
          r = fuse env (str_strip (payload_text p))
                (fast_lexicon_filter (str_strip (payload_text p))) False 0)
     \<and> (str_strip (payload_text p) \<noteq> []
          \<and> (raised_in_filter env \<noteq> None \<or> raised_in_fusion env \<noteq> None) \<longrightarrow>
          r = \<lparr>is_biased = False, overall_confidence = 0, categories = [],
               highlighted_text = payload_text p, bias_score = 0,
               processing_time_ms = (time_end env - time_start env) * 1000\<rparr>)"
proof -
  let ?text = "str_strip (payload_text p)"
  let ?neutral = "\<lparr>is_biased = False, overall_confidence = 0, categories = [],
               highlighted_text = payload_text p, bias_score = 0,
               processing_time_ms = (time_end env - time_start env) * 1000\<rparr>"
  have degrade: "classifier_fails (lib env) (bias_pipeline st) ?text \<longrightarrow>
      fst (sentence_level_classification (lib env) (bias_pipeline st) ?text) = (False, 0)"
    using sentence_level_classification_fails by blast
  consider (empty) "?text = []"
    | (normal) "?text \<noteq> []" "raised_in_filter env = None" "raised_in_fusion env = None"
    | (raised) "?text \<noteq> []" "raised_in_filter env \<noteq> None \<or> raised_in_fusion env \<noteq> None"
    by blast
  then show ?thesis
  proof cases
    case empty
    then show ?thesis
      using degrade by (simp add: detect_realtime_bias_def detect_try_empty)
  next
    case normal
    have "classifier_fails (lib env) (bias_pipeline st) ?text \<Longrightarrow>
        fst (detect_realtime_bias env st p) =
          Inr (fuse env ?text (fast_lexicon_filter ?text) False 0)"
      using sentence_level_classification_fails [of "lib env" "bias_pipeline st" ?text]
      by (simp add: detect_realtime_bias_def detect_try_normal [OF normal] Let_def)
    moreover have "\<exists>r. fst (detect_realtime_bias env st p) = Inr r"
      by (simp add: detect_realtime_bias_def detect_try_normal [OF normal] Let_def)
    ultimately show ?thesis
      using degrade normal by auto
  next
    case raised
    from detect_try_raised [OF raised] obtain e st' where "detect_try env st p = (Inl e, st')"
      by blast
    then have "fst (detect_realtime_bias env st p) = Inr ?neutral"
      by (simp add: detect_realtime_bias_def)
    then show ?thesis
      using degrade raised by auto
  qed
qed


theorem never_raises_witness:
  "classifier_fails (lib (env_of lib_broken 0 1)) (bias_pipeline fresh)
     (str_strip (payload_text (request ''obviously'')))
   \<and> fst (detect_realtime_bias (env_of lib_broken 0 1) fresh (request ''obviously'')) =
       Inr (fuse (env_of lib_broken 0 1) ''obviously'' (fast_lexicon_filter ''obviously'')
              False 0)
   \<and> bias_score (fuse (env_of lib_broken 0 1) ''obviously''
                    (fast_lexicon_filter ''obviously'') False 0) = 693 / 2000
   \<and> raised_in_fusion env_raising \<noteq> None
   \<and> fst (detect_realtime_bias env_raising fresh (request '' Obviously '')) =
       Inr \<lparr>is_biased = False, overall_confidence = 0, categories = [],
            highlighted_text = '' Obviously '', bias_score = 0, processing_time_ms = 1000\<rparr>"
proof -
  let ?broken = "env_of lib_broken 0 1"
  have fails: "classifier_fails (lib ?broken) (bias_pipeline fresh)
     (str_strip (payload_text (request ''obviously'')))"
    by (simp add: classifier_fails_def env_of_def fresh_def load_bias_pipeline_def
        lib_broken_def)
  have quiet: "raised_in_filter ?broken = None" "raised_in_fusion ?broken = None"
    by (simp_all add: env_of_def)
  have stripped: "str_strip (payload_text (request ''obviously'')) = ''obviously''"
    "str_strip (payload_text (request '' Obviously '')) = ''Obviously''"
    by (simp_all add: request_def strip_samples)
  have raised: "raised_in_fusion env_raising \<noteq> None"
    by (simp add: env_raising_def)
  have score: "bias_score (fuse ?broken ''obviously'' (fast_lexicon_filter ''obviously'')
      False 0) = 693 / 2000"
    by (simp add: fuse_def filter_obviously calculate_overall_bias_score_def)
  have neutral: "payload_text (request '' Obviously '') = '' Obviously ''"
    "(time_end env_raising - time_start env_raising) * 1000 = 1000"
    by (simp_all add: request_def env_raising_def env_of_def)
  from never_raises [of ?broken fresh "request ''obviously''"] fails quiet
  have a: "fst (detect_realtime_bias ?broken fresh (request ''obviously'')) =
       Inr (fuse ?broken ''obviously'' (fast_lexicon_filter ''obviously'') False 0)"
    unfolding stripped by auto
  from never_raises [of env_raising fresh "request '' Obviously ''"] raised
  have b: "fst (detect_realtime_bias env_raising fresh (request '' Obviously '')) =
       Inr \<lparr>is_biased = False, overall_confidence = 0, categories = [],
            highlighted_text = '' Obviously '', bias_score = 0, processing_time_ms = 1000\<rparr>"
    unfolding stripped neutral by (auto simp: strip_samples)
  show ?thesis
    using fails a b raised score by blast
qed


section \<open>Calling twice\<close>

lemma detect_realtime_bias_pipeline:
  "bias_pipeline st = Some pl \<Longrightarrow> bias_pipeline (snd (detect_realtime_bias env st p)) = Some pl"
  using detect_try_pipeline [of st pl env p]
  by (cases "detect_try env st p") (auto simp: detect_realtime_bias_def split: sum.splits)

text \<open>
  The response is a function of the library, the injected exceptions, the pipeline held
  by the process and the text; the clock enters through the processing time only.
\<close>

lemma detect_realtime_bias_timeless:
  assumes "lib env' = lib env" "raised_in_filter env' = raised_in_filter env"
    "raised_in_fusion env' = raised_in_fusion env" "bias_pipeline st' = bias_pipeline st"
  shows "\<exists>r r'. fst (detect_realtime_bias env st p) = Inr r
           \<and> fst (detect_realtime_bias env' st' p) = Inr r' \<and> timeless r = timeless r'"
  using assms
  by (auto simp: detect_realtime_bias_def detect_try_def Let_def fuse_def timeless_def
      split: prod.splits option.splits)

text \<open>
  C7, amended.  With the pipeline already loaded, a second call on the same request, with
  the same library and the same injected exceptions, returns a response that agrees with
  the first in every field other than the processing time.
\<close>

theorem repeatable_up_to_time:
  assumes "bias_pipeline st = Some pl"
    and "lib env' = lib env" "raised_in_filter env' = raised_in_filter env"
    "raised_in_fusion env' = raised_in_fusion env"
  shows "\<exists>r r'. fst (detect_realtime_bias env st p) = Inr r
           \<and> fst (detect_realtime_bias env' (snd (detect_realtime_bias env st p)) p) = Inr r'
           \<and> timeless r = timeless r'"
proof -
  have "bias_pipeline (snd (detect_realtime_bias env st p)) = bias_pipeline st"
    using detect_realtime_bias_pipeline [OF assms(1)] assms(1) by simp
  then show ?thesis
    using detect_realtime_bias_timeless [OF assms(2-4)] by blast
qed

text \<open>
  C7 as stated fails: two calls on the text "obviously", the first taking 2 ms on the
  clock and the second 5 ms, return responses that differ in the processing time.
\<close>

theorem processing_time_differs:
  "fst (detect_realtime_bias (env_of lib_even 0 (2 / 1000)) trained (request ''obviously'')) \<noteq>
   fst (detect_realtime_bias (env_of lib_even 10 (10 + 5 / 1000))
          (snd (detect_realtime_bias (env_of lib_even 0 (2 / 1000)) trained
                  (request ''obviously'')))
          (request ''obviously''))
   \<and> map_sum id processing_time_ms
        (fst (detect_realtime_bias (env_of lib_even 0 (2 / 1000)) trained
                (request ''obviously''))) = Inr 2
   \<and> map_sum id processing_time_ms
        (fst (detect_realtime_bias (env_of lib_even 10 (10 + 5 / 1000))
                (snd (detect_realtime_bias (env_of lib_even 0 (2 / 1000)) trained
                        (request ''obviously'')))
                (request ''obviously''))) = Inr 5"
proof -
  let ?e1 = "env_of lib_even 0 (2 / 1000)" and ?e2 = "env_of lib_even 10 (10 + 5 / 1000)"
  let ?p = "request ''obviously''"
  have nonempty: "str_strip (payload_text ?p) \<noteq> []"
    by (simp add: request_def strip_samples)
  have quiet: "raised_in_filter ?e1 = None" "raised_in_fusion ?e1 = None"
    "raised_in_filter ?e2 = None" "raised_in_fusion ?e2 = None"
    by (simp_all add: env_of_def)
  have time: "map_sum id processing_time_ms (fst (detect_realtime_bias env st ?p)) =
      Inr ((time_end env - time_start env) * 1000)"
    if "raised_in_filter env = None" "raised_in_fusion env = None" for env :: "unit env" and st
    by (simp add: detect_realtime_bias_def detect_try_normal [OF nonempty that] Let_def fuse_def)
  have t1: "map_sum id processing_time_ms (fst (detect_realtime_bias ?e1 trained ?p)) = Inr 2"
    unfolding time [OF quiet(1,2)] by (simp add: env_of_def)
  have t2: "map_sum id processing_time_ms
      (fst (detect_realtime_bias ?e2 (snd (detect_realtime_bias ?e1 trained ?p)) ?p)) = Inr 5"
    unfolding time [OF quiet(3,4)] by (simp add: env_of_def)
  from t1 t2 have "fst (detect_realtime_bias ?e1 trained ?p) \<noteq>
      fst (detect_realtime_bias ?e2 (snd (detect_realtime_bias ?e1 trained ?p)) ?p)"
    by auto
  with t1 t2 show ?thesis by blast
qed

theorem repeatable_up_to_time_witness:
  "bias_pipeline trained = Some ()
   \<and> lib (env_of lib_even 10 (10 + 5 / 1000)) = lib (env_of lib_even 0 (2 / 1000))
   \<and> (\<exists>r r'. fst (detect_realtime_bias (env_of lib_even 0 (2 / 1000)) trained
                    (request ''obviously'')) = Inr r
           \<and> fst (detect_realtime_bias (env_of lib_even 10 (10 + 5 / 1000))
                    (snd (detect_realtime_bias (env_of lib_even 0 (2 / 1000)) trained
                            (request ''obviously'')))
                    (request ''obviously'')) = Inr r'
           \<and> timeless r = timeless r')"
proof -
  let ?e1 = "env_of lib_even 0 (2 / 1000)" and ?e2 = "env_of lib_even 10 (10 + 5 / 1000)"
  have h1: "bias_pipeline trained = Some ()"
    by (simp add: trained_def)
  have h2: "lib ?e2 = lib ?e1" and h3: "raised_in_filter ?e2 = raised_in_filter ?e1"
    and h4: "raised_in_fusion ?e2 = raised_in_fusion ?e1"
    by (simp_all add: env_of_def)
  show ?thesis
    using repeatable_up_to_time [OF h1 h2 h3 h4, of "request ''obviously''"] h1 h2 by blast
qed

section \<open>The sentiment labels\<close>

text \<open>
  C8.  When the analyzer is available and scores the text with the compound value c, the
  response is POSITIVE with score c if c is at least 0.05, NEGATIVE with score |c| if c
  is at most -0.05, and NEUTRAL with score 0.5 otherwise.
\<close>

theorem sentiment_mapping:
  assumes "fst (load_vader_analyzer nl g) = Inr a"
    and "polarity_scores nl a text = Inr scores"
    and "scores ''compound'' = Some c"
  shows "fst (analyze_sentiment nl g text) =
     [\<lparr>label = (if c \<ge> 5 / 100 then POSITIVE else if c \<le> - (5 / 100) then NEGATIVE
                 else NEUTRAL),
       score = (if c \<ge> 5 / 100 then c else if c \<le> - (5 / 100) then \<bar>c\<bar> else 5 / 10),
       vader_scores = Some scores, error_text = None\<rparr>]"
  using assms
  by (cases "load_vader_analyzer nl g")
     (simp add: analyze_sentiment_def sentiment_try_def lookup_def sentiment_of_compound_def)

theorem sentiment_mapping_witness:
  "map (\<lambda>e. (label e, score e)) (fst (analyze_sentiment sample_nltk None ''good'')) =
     [(POSITIVE, 5 / 10)]
   \<and> map (\<lambda>e. (label e, score e)) (fst (analyze_sentiment sample_nltk None ''bad'')) =
     [(NEGATIVE, 5 / 10)]
   \<and> map (\<lambda>e. (label e, score e)) (fst (analyze_sentiment sample_nltk None ''so so'')) =
     [(NEUTRAL, 5 / 10)]"
proof -
  have ld: "fst (load_vader_analyzer sample_nltk None) = Inr ()"
    by (simp add: load_vader_analyzer_def sample_nltk_def)
  have sc: "polarity_scores sample_nltk () t = Inr [''compound'' \<mapsto>
         (if t = ''good'' then 5 / 10 else if t = ''bad'' then - (5 / 10) else 1 / 100)]" for t
    by (simp add: sample_nltk_def)
  have c: "[''compound'' \<mapsto> x] ''compound'' = Some x" for x :: real
    by simp
  show ?thesis
    using sentiment_mapping [OF ld sc c, of "''good''"]
      sentiment_mapping [OF ld sc c, of "''bad''"]
      sentiment_mapping [OF ld sc c, of "''so so''"]
    by simp
qed

section \<open>Highlighting and the way back\<close>

lemmas highlight_eval =
  highlight_biased_words_def to_bias_position_def apply_highlight_def highlight_def
  slice_to_def slice_from_def slice_index_def format_2f_values str_float_values

lemmas strip_markers_eval = strip_markers.simps marker_open_def marker_close_def

text \<open>A single marker is removed again, and the text is back.\<close>

lemma single_marker_round_trip:
  "strip_markers (highlight_biased_words ''you are stupid'' [stupid_detection]) = ''you are stupid''"
  by (simp add: stupid_detection_def highlight_eval strip_markers_eval)

lemma lower_Stupid: "str_lower ''Stupid'' = ''stupid''"
  by (simp add: str_lower_def lower_char_def is_capital_def char_of_nat_eval)

lemma split_Stupid: "str_split ''Stupid'' = [''Stupid'']"
  by (simp add: str_split_def isspace_def)

lemma filter_Stupid:
  "fast_lexicon_filter ''Stupid'' =
     [\<lparr>category = ''pejorative'', keyword = ''stupid'', position = 0,
       context' = ''Stupid'', weight = 1, confidence = 9 / 10,
       description = ''Derogatory or insulting language''\<rparr>]"
  unfolding fast_lexicon_filter_def BIAS_CATEGORIES_def
  by (simp add: scan_keyword_eval lower_Stupid split_Stupid hit_confidence_def
      slice_def slice_index_def)

text \<open>The marker holds the keyword of the table, not the characters of the text.\<close>

lemma marker_loses_case:
  "strip_markers (highlight_biased_words ''Stupid'' (fast_lexicon_filter ''Stupid'')) = ''stupid''"
  by (simp add: filter_Stupid highlight_eval strip_markers_eval)

text \<open>
  Nested spans fare no better: in "Only women" the keyword "men" lies inside "women", and
  the marker of "women" swallows the first three characters of the marker of "men".
\<close>

lemma nested_spans_corrupt_text:
  "highlight_biased_words ''Only women'' (fast_lexicon_filter ''Only women'') =
     ''Only '' @ highlight (to_bias_position (women_detection ''Only women'' 1)) @
     drop 3 (highlight \<lparr>bp_start = 7, bp_end = 10, bp_keyword = ''men'',
                        bp_category = ''gender_bias'', bp_confidence = 1\<rparr>)"
  by (simp add: filter_only_women highlight_eval women_detection_def)

text \<open>
  C5.  On the text "obviously" the filter reports the same span twice, for the categories
  subjective and confirmation_bias.  The second rewrite replaces the first nine characters
  of the first marker instead of the word, so the rest of that marker stays in the text
  as plain characters: removing the markers leaves more than the input.
\<close>

theorem coinciding_spans_corrupt_text:
  \<open>highlight_biased_words ''obviously'' (fast_lexicon_filter ''obviously'') =
     ''<span style="background-color: rgba(255, 0, 0, 0.9); color: white; padding: 2px 4px; border-radius: 3px; font-weight: bold;" title="confirmation_bias (confidence: 0.90)">obviously</span>le="background-color: rgba(255, 0, 0, 0.9); color: white; padding: 2px 4px; border-radius: 3px; font-weight: bold;" title="subjective (confidence: 0.90)">obviously</span>''
   \<and> strip_markers (highlight_biased_words ''obviously'' (fast_lexicon_filter ''obviously'')) =
     ''obviouslyle="background-color: rgba(255, 0, 0, 0.9); color: white; padding: 2px 4px; border-radius: 3px; font-weight: bold;" title="subjective (confidence: 0.90)">obviously''
   \<and> strip_markers (highlight_biased_words ''obviously'' (fast_lexicon_filter ''obviously'')) \<noteq>
     ''obviously''\<close>
proof -
  have hl: \<open>highlight_biased_words ''obviously'' (fast_lexicon_filter ''obviously'') =
     ''<span style="background-color: rgba(255, 0, 0, 0.9); color: white; padding: 2px 4px; border-radius: 3px; font-weight: bold;" title="confirmation_bias (confidence: 0.90)">obviously</span>le="background-color: rgba(255, 0, 0, 0.9); color: white; padding: 2px 4px; border-radius: 3px; font-weight: bold;" title="subjective (confidence: 0.90)">obviously</span>''\<close>
    by (simp add: filter_obviously highlight_eval)
  have st: \<open>strip_markers (highlight_biased_words ''obviously'' (fast_lexicon_filter ''obviously'')) =
     ''obviouslyle="background-color: rgba(255, 0, 0, 0.9); color: white; padding: 2px 4px; border-radius: 3px; font-weight: bold;" title="subjective (confidence: 0.90)">obviously''\<close>
    unfolding hl by (simp add: strip_markers_eval)
  have ne: "strip_markers (highlight_biased_words ''obviously'' (fast_lexicon_filter ''obviously'')) \<noteq>
     ''obviously''"
    unfolding st by simp
  from hl st ne show ?thesis by blast
qed

end
